theory Spec2Isabelle
  imports Main
begin

section \<open>Python values\<close>

text \<open>
  The two Lambda modules (\<^verbatim>\<open>doc_ingestor.py\<close>, \<^verbatim>\<open>query_processor.py\<close>) handle values
  produced by \<^verbatim>\<open>json.loads\<close>: \<^verbatim>\<open>None\<close>, booleans, integers, floats, strings, lists and
  dictionaries with string keys. A dictionary is an association list in insertion order
  (a Python dictionary has distinct keys). Strings are lists of characters; a character
  is a code point below 256. No floating-point arithmetic is performed by the code, so a
  float is carried as the value it denotes (sign, mantissa, binary exponent).
\<close>

datatype pyfloat = Finite bool nat int | Infinite bool | NotANumber

datatype json =
    JNull
  | JBool bool
  | JInt int
  | JFloat pyfloat
  | JStr string
  | JArr "json list"
  | JObj "(string \<times> json) list"

text \<open>
  Exceptions, all subclasses of \<^verbatim>\<open>Exception\<close>. \<open>KeyError\<close> carries \<^verbatim>\<open>str(e)\<close>, the
  \<^verbatim>\<open>repr\<close> of the missing key. \<open>ServiceError t m\<close> is an exception of type name \<open>t\<close> and
  message \<open>m\<close> raised inside a client library (boto3, opensearch-py, \<^verbatim>\<open>json.loads\<close>).
\<close>

datatype exn =
    RuntimeError string
  | ValueError string
  | KeyError string
  | TypeError
  | AttributeError
  | IndexError
  | ServiceError string string

fun exn_type_name :: "exn \<Rightarrow> string" where
  "exn_type_name (RuntimeError m) = ''RuntimeError''"
| "exn_type_name (ValueError m) = ''ValueError''"
| "exn_type_name (KeyError m) = ''KeyError''"
| "exn_type_name TypeError = ''TypeError''"
| "exn_type_name AttributeError = ''AttributeError''"
| "exn_type_name IndexError = ''IndexError''"
| "exn_type_name (ServiceError t m) = t"

definition key_error :: "string \<Rightarrow> exn" where
  "key_error k = KeyError ([CHR 0x27] @ k @ [CHR 0x27])"

text \<open>
  Library functions that are not part of the repository are parameters: \<^verbatim>\<open>json.loads\<close>,
  the rendering of a float by \<^verbatim>\<open>json.dumps\<close>, the text an f-string gives a float, list or
  dictionary,
  \<^verbatim>\<open>hashlib.md5(...).hexdigest()\<close>, and the message the interpreter attaches to a
  \<^verbatim>\<open>TypeError\<close>, \<^verbatim>\<open>AttributeError\<close> or \<^verbatim>\<open>IndexError\<close>.
\<close>

record pylib =
  json_loads :: "string \<Rightarrow> exn + json"
  float_repr :: "pyfloat \<Rightarrow> string"
  repr_other :: "json \<Rightarrow> string"
  md5_hexdigest :: "string \<Rightarrow> string"
  interp_message :: "exn \<Rightarrow> string"

fun exn_str :: "pylib \<Rightarrow> exn \<Rightarrow> string" where
  "exn_str lib (RuntimeError m) = m"
| "exn_str lib (ValueError m) = m"
| "exn_str lib (KeyError m) = m"
| "exn_str lib (ServiceError t m) = m"
| "exn_str lib e = interp_message lib e"

subsection \<open>Truthiness, \<^verbatim>\<open>len\<close>, lookups\<close>

fun truthy :: "json \<Rightarrow> bool" where
  "truthy JNull = False"
| "truthy (JBool b) = b"
| "truthy (JInt i) = (i \<noteq> 0)"
| "truthy (JFloat (Finite s m e)) = (m \<noteq> 0)"
| "truthy (JFloat (Infinite s)) = True"
| "truthy (JFloat NotANumber) = True"
| "truthy (JStr s) = (s \<noteq> [])"
| "truthy (JArr xs) = (xs \<noteq> [])"
| "truthy (JObj kvs) = (kvs \<noteq> [])"

definition py_or :: "json \<Rightarrow> json \<Rightarrow> json" where
  "py_or x y = (if truthy x then x else y)"

fun py_len :: "json \<Rightarrow> exn + nat" where
  "py_len (JStr s) = Inr (length s)"
| "py_len (JArr xs) = Inr (length xs)"
| "py_len (JObj kvs) = Inr (length kvs)"
| "py_len v = Inl TypeError"

fun starts_with :: "string \<Rightarrow> string \<Rightarrow> bool" where
  "starts_with [] s = True"
| "starts_with (p # ps) [] = False"
| "starts_with (p # ps) (c # cs) = (p = c \<and> starts_with ps cs)"

fun str_contains :: "string \<Rightarrow> string \<Rightarrow> bool" where
  "str_contains p [] = (p = [])"
| "str_contains p (c # cs) = (starts_with p (c # cs) \<or> str_contains p cs)"

text \<open>\<^verbatim>\<open>k in x\<close> for a string \<open>k\<close>: key test on a dictionary, element test on a list,
  substring test on a string, \<^verbatim>\<open>TypeError\<close> on anything else.\<close>

fun py_in :: "string \<Rightarrow> json \<Rightarrow> exn + bool" where
  "py_in k (JObj kvs) = Inr (k \<in> set (map fst kvs))"
| "py_in k (JArr xs) = Inr (JStr k \<in> set xs)"
| "py_in k (JStr s) = Inr (str_contains k s)"
| "py_in k v = Inl TypeError"

text \<open>\<^verbatim>\<open>x[k]\<close> for a string \<open>k\<close>.\<close>

fun getitem :: "json \<Rightarrow> string \<Rightarrow> exn + json" where
  "getitem (JObj kvs) k = (case map_of kvs k of Some v \<Rightarrow> Inr v | None \<Rightarrow> Inl (key_error k))"
| "getitem v k = Inl TypeError"

text \<open>\<^verbatim>\<open>x[0]\<close>. A dictionary from JSON has no integer key.\<close>

fun getitem0 :: "json \<Rightarrow> exn + json" where
  "getitem0 (JArr []) = Inl IndexError"
| "getitem0 (JArr (v # vs)) = Inr v"
| "getitem0 (JStr []) = Inl IndexError"
| "getitem0 (JStr (c # cs)) = Inr (JStr [c])"
| "getitem0 (JObj kvs) = Inl (KeyError ''0'')"
| "getitem0 v = Inl TypeError"

text \<open>\<^verbatim>\<open>x.get(k, d)\<close>: only a dictionary has the method.\<close>

fun dict_get :: "json \<Rightarrow> string \<Rightarrow> json \<Rightarrow> exn + json" where
  "dict_get (JObj kvs) k d = Inr (case map_of kvs k of Some v \<Rightarrow> v | None \<Rightarrow> d)"
| "dict_get v k d = Inl AttributeError"

fun is_list :: "json \<Rightarrow> bool" where
  "is_list (JArr xs) = True"
| "is_list v = False"

fun is_dict :: "json \<Rightarrow> bool" where
  "is_dict (JObj kvs) = True"
| "is_dict v = False"

text \<open>Storing a key: an existing key keeps its position, a new key is appended.\<close>

fun dict_set :: "(string \<times> json) list \<Rightarrow> string \<Rightarrow> json \<Rightarrow> (string \<times> json) list" where
  "dict_set [] k v = [(k, v)]"
| "dict_set ((k', v') # kvs) k v =
     (if k' = k then (k, v) # kvs else (k', v') # dict_set kvs k v)"

fun dict_update :: "(string \<times> json) list \<Rightarrow> (string \<times> json) list \<Rightarrow> (string \<times> json) list" where
  "dict_update d [] = d"
| "dict_update d ((k, v) # kvs) = dict_update (dict_set d k v) kvs"

section \<open>External services\<close>

text \<open>
  Every call to OpenSearch, Bedrock or S3 is recorded in a trace. A service answers a call
  with an exception or a value; the answer may depend on everything that happened before,
  so each service is a function of the trace up to and including the call.
  \<open>invoke_model\<close> stands for \<^verbatim>\<open>bedrock.invoke_model(...)["body"].read()\<close> and
  \<open>get_object\<close> for \<^verbatim>\<open>s3.get_object(...)["Body"].read().decode("utf-8", errors="ignore")\<close>.
\<close>

datatype call =
    IndicesExists string
  | IndicesCreate string json
  | InvokeModel string string
  | SearchIndex string json
  | IndexDoc string json
  | GetObject json json

record env =
  indices_exists :: "call list \<Rightarrow> exn + bool"
  indices_create :: "call list \<Rightarrow> exn + unit"
  invoke_model :: "call list \<Rightarrow> exn + string"
  os_search :: "call list \<Rightarrow> exn + json"
  os_index :: "call list \<Rightarrow> exn + unit"
  get_object :: "call list \<Rightarrow> exn + string"

type_synonym 'a io = "call list \<Rightarrow> (exn + 'a) \<times> call list"

definition bind_io :: "'a io \<Rightarrow> ('a \<Rightarrow> 'b io) \<Rightarrow> 'b io" where
  "bind_io m f tr = (case m tr of (Inl e, tr') \<Rightarrow> (Inl e, tr') | (Inr x, tr') \<Rightarrow> f x tr')"

definition return_io :: "'a \<Rightarrow> 'a io" where
  "return_io x tr = (Inr x, tr)"

definition lift_io :: "exn + 'a \<Rightarrow> 'a io" where
  "lift_io r tr = (r, tr)"

text \<open>Module-level configuration, read from the process environment at import.\<close>

record config =
  EMBED_MODEL_ID :: string
  GEN_MODEL_ID :: string
  GEN_INFERENCE_PROFILE_ID :: "string option"
  OPENSEARCH_INDEX :: string
  CORS_ALLOW_ORIGIN :: string
  DEBUG_PUBLIC_ERRORS :: "string option"

section \<open>Index schema creation\<close>

definition index_config :: json where
  "index_config =
     JObj [(''settings'', JObj [(''index.knn'', JBool True)]),
           (''mappings'', JObj [(''properties'', JObj [
              (''embedding'', JObj [
                 (''type'', JStr ''knn_vector''),
                 (''dimension'', JInt 1024),
                 (''space_type'', JStr ''cosinesimil''),
                 (''mode'', JStr ''on_disk''),
                 (''compression_level'', JStr ''16x''),
                 (''method'', JObj [
                    (''name'', JStr ''hnsw''),
                    (''engine'', JStr ''faiss''),
                    (''parameters'', JObj [(''m'', JInt 16), (''ef_construction'', JInt 100)])])]),
              (''chunk_text'', JObj [(''type'', JStr ''text'')]),
              (''doc_id'', JObj [(''type'', JStr ''keyword'')]),
              (''chunk_id'', JObj [(''type'', JStr ''integer'')]),
              (''title'', JObj [(''type'', JStr ''text'')]),
              (''section'', JObj [(''type'', JStr ''text'')]),
              (''source'', JObj [(''type'', JStr ''keyword'')]),
              (''s3_key'', JObj [(''type'', JStr ''keyword'')]),
              (''url'', JObj [(''type'', JStr ''keyword'')]),
              (''tags'', JObj [(''type'', JStr ''keyword'')]),
              (''token_count'', JObj [(''type'', JStr ''integer'')]),
              (''created_at'', JObj [(''type'', JStr ''date'')]),
              (''updated_at'', JObj [(''type'', JStr ''date'')])])])]"

text \<open>The body of the \<^verbatim>\<open>try\<close> block of \<^verbatim>\<open>ensure_index_exists\<close>: it may raise.\<close>

definition ensure_index_exists_try :: "env \<Rightarrow> string \<Rightarrow> unit io" where
  "ensure_index_exists_try en idx tr =
     (let tr1 = tr @ [IndicesExists idx] in
      case indices_exists en tr1 of
        Inl e \<Rightarrow> (Inl e, tr1)
      | Inr True \<Rightarrow> (Inr (), tr1)
      | Inr False \<Rightarrow>
          (let tr2 = tr1 @ [IndicesCreate idx index_config] in
           case indices_create en tr2 of
             Inl e \<Rightarrow> (Inl e, tr2)
           | Inr u \<Rightarrow> (Inr (), tr2)))"

text \<open>\<^verbatim>\<open>except Exception as e\<close>: the error is logged and the function returns \<^verbatim>\<open>None\<close>.
  The function is the same in both modules; the index name is \<^verbatim>\<open>OPENSEARCH_INDEX\<close> in
  the ingestor and \<^verbatim>\<open>INDEX\<close> in the query processor, both read from the same variable.\<close>

definition ensure_index_exists :: "env \<Rightarrow> string \<Rightarrow> unit io" where
  "ensure_index_exists en idx tr =
     (case ensure_index_exists_try en idx tr of
        (Inl e, tr') \<Rightarrow> (Inr (), tr')
      | (Inr u, tr') \<Rightarrow> (Inr (), tr'))"

definition di_ensure_index_exists :: "config \<Rightarrow> env \<Rightarrow> unit io" where
  "di_ensure_index_exists cfg en = ensure_index_exists en (OPENSEARCH_INDEX cfg)"

definition qp_ensure_index_exists :: "config \<Rightarrow> env \<Rightarrow> unit io" where
  "qp_ensure_index_exists cfg en = ensure_index_exists en (OPENSEARCH_INDEX cfg)"

section \<open>Strings and \<^verbatim>\<open>json.dumps\<close>\<close>

fun join :: "string \<Rightarrow> string list \<Rightarrow> string" where
  "join sep [] = []"
| "join sep [x] = x"
| "join sep (x # y # ys) = x @ sep @ join sep (y # ys)"

fun str_nat :: "nat \<Rightarrow> string" where
  "str_nat n = (if n < 10 then [''0123456789'' ! n]
                else str_nat (n div 10) @ [''0123456789'' ! (n mod 10)])"

definition str_int :: "int \<Rightarrow> string" where
  "str_int i = (if i < 0 then CHR ''-'' # str_nat (nat (- i)) else str_nat (nat i))"

text \<open>\<^verbatim>\<open>str(v)\<close> as an f-string field renders it.\<close>

fun py_str :: "pylib \<Rightarrow> json \<Rightarrow> string" where
  "py_str lib (JStr s) = s"
| "py_str lib JNull = ''None''"
| "py_str lib (JBool b) = (if b then ''True'' else ''False'')"
| "py_str lib (JInt i) = str_int i"
| "py_str lib v = repr_other lib v"

text \<open>
  \<^verbatim>\<open>json.dumps\<close> with its defaults (\<^verbatim>\<open>ensure_ascii=True\<close>, separators \<^verbatim>\<open>", "\<close> and
  \<^verbatim>\<open>": "\<close>): inside a string, the quote, the backslash and the five named control
  characters get their two-character escape, every other character outside
  \<^verbatim>\<open>' '..'~'\<close> becomes \<^verbatim>\<open>\uXXXX\<close>.
\<close>

definition hex_digit :: "nat \<Rightarrow> char" where
  "hex_digit d = ''0123456789abcdef'' ! d"

definition escape_char :: "char \<Rightarrow> string" where
  "escape_char c =
     (if c = CHR 0x22 then [CHR 0x5C, CHR 0x22]
      else if c = CHR 0x5C then [CHR 0x5C, CHR 0x5C]
      else if c = CHR 0x0A then [CHR 0x5C, CHR ''n'']
      else if c = CHR 0x0D then [CHR 0x5C, CHR ''r'']
      else if c = CHR 0x09 then [CHR 0x5C, CHR ''t'']
      else if c = CHR 0x08 then [CHR 0x5C, CHR ''b'']
      else if c = CHR 0x0C then [CHR 0x5C, CHR ''f'']
      else if (32::nat) \<le> of_char c \<and> of_char c \<le> (126::nat) then [c]
      else [CHR 0x5C, CHR ''u'', CHR ''0'', CHR ''0'',
            hex_digit ((of_char c :: nat) div 16), hex_digit ((of_char c :: nat) mod 16)])"

definition dumps_str :: "string \<Rightarrow> string" where
  "dumps_str s = [CHR 0x22] @ concat (map escape_char s) @ [CHR 0x22]"

fun json_dumps :: "pylib \<Rightarrow> json \<Rightarrow> string" where
  "json_dumps lib JNull = ''null''"
| "json_dumps lib (JBool b) = (if b then ''true'' else ''false'')"
| "json_dumps lib (JInt i) = str_int i"
| "json_dumps lib (JFloat f) = float_repr lib f"
| "json_dumps lib (JStr s) = dumps_str s"
| "json_dumps lib (JArr xs) = ''['' @ join '', '' (map (json_dumps lib) xs) @ '']''"
| "json_dumps lib (JObj kvs) =
     ''{'' @ join '', '' (map (\<lambda>kv. dumps_str (fst kv) @ '': '' @ json_dumps lib (snd kv)) kvs) @ ''}''"

text \<open>\<^verbatim>\<open>json.loads(x)\<close>: the argument must be a string; the literal \<^verbatim>\<open>"{}"\<close> that the
  handler passes for a missing body is the empty dictionary.\<close>

fun py_json_loads :: "pylib \<Rightarrow> json \<Rightarrow> exn + json" where
  "py_json_loads lib (JStr s) = (if s = ''{}'' then Inr (JObj []) else json_loads lib s)"
| "py_json_loads lib v = Inl TypeError"

section \<open>Embedding\<close>

subsection \<open>\<^verbatim>\<open>doc_ingestor.embed\<close>\<close>

text \<open>The loop over \<^verbatim>\<open>payload["outputs"]\<close>: the first dictionary with an
  \<^verbatim>\<open>"embedding"\<close> key ends the search (\<^verbatim>\<open>len(embedding)\<close> is evaluated for the log
  line and may raise); \<open>None\<close> when the loop runs to its end.\<close>

fun find_output_embedding :: "json list \<Rightarrow> (exn + json) option" where
  "find_output_embedding [] = None"
| "find_output_embedding (output_item # rest) =
     (if is_dict output_item \<and> py_in ''embedding'' output_item = Inr True then
        (case getitem output_item ''embedding'' of
           Inl e \<Rightarrow> Some (Inl e)
         | Inr embedding \<Rightarrow>
             (case py_len embedding of
                Inl e \<Rightarrow> Some (Inl e)
              | Inr n \<Rightarrow> Some (Inr embedding)))
      else find_output_embedding rest)"

definition malformed_response_msg :: "pylib \<Rightarrow> json \<Rightarrow> string" where
  "malformed_response_msg lib payload =
     ''No '' @ [CHR 0x27] @ ''embedding'' @ [CHR 0x27] @ '' found in model response: ''
       @ take 1000 (json_dumps lib payload)"

text \<open>What \<^verbatim>\<open>embed\<close> does with the parsed payload.\<close>

definition di_embed_payload :: "pylib \<Rightarrow> json \<Rightarrow> exn + json" where
  "di_embed_payload lib payload =
     (case py_in ''embedding'' payload of
        Inl e \<Rightarrow> Inl e
      | Inr True \<Rightarrow>
          (case getitem payload ''embedding'' of
             Inl e \<Rightarrow> Inl e
           | Inr embedding \<Rightarrow>
               (case py_len embedding of Inl e \<Rightarrow> Inl e | Inr n \<Rightarrow> Inr embedding))
      | Inr False \<Rightarrow>
          (case py_in ''outputs'' payload of
             Inl e \<Rightarrow> Inl e
           | Inr False \<Rightarrow> Inl (RuntimeError (malformed_response_msg lib payload))
           | Inr True \<Rightarrow>
               (case getitem payload ''outputs'' of
                  Inl e \<Rightarrow> Inl e
                | Inr (JArr items) \<Rightarrow>
                    (case find_output_embedding items of
                       Some r \<Rightarrow> r
                     | None \<Rightarrow> Inl (RuntimeError (malformed_response_msg lib payload)))
                | Inr other \<Rightarrow> Inl (RuntimeError (malformed_response_msg lib payload)))))"

definition native_request :: "string \<Rightarrow> int option \<Rightarrow> bool option \<Rightarrow> json" where
  "native_request text dimensions normalize_flag =
     JObj ([(''inputText'', JStr text)]
           @ (case dimensions of None \<Rightarrow> [] | Some d \<Rightarrow> [(''dimensions'', JInt d)])
           @ (case normalize_flag of None \<Rightarrow> [] | Some b \<Rightarrow> [(''normalize'', JBool b)]))"

text \<open>\<^verbatim>\<open>model_id or EMBED_MODEL_ID\<close>: \<^verbatim>\<open>None\<close> and the empty string select the default.
  Both \<^verbatim>\<open>except\<close> clauses log and re-raise, so every exception of the \<^verbatim>\<open>try\<close> block
  leaves the function unchanged.\<close>

definition di_embed ::
  "pylib \<Rightarrow> config \<Rightarrow> env \<Rightarrow> string \<Rightarrow> int option \<Rightarrow> bool option \<Rightarrow> string option \<Rightarrow> json io" where
  "di_embed lib cfg en text dimensions normalize_flag model_id tr =
     (let mid = (case model_id of None \<Rightarrow> EMBED_MODEL_ID cfg
                 | Some m \<Rightarrow> if m = [] then EMBED_MODEL_ID cfg else m);
          body = json_dumps lib (native_request text dimensions normalize_flag);
          tr1 = tr @ [InvokeModel mid body]
      in case invoke_model en tr1 of
           Inl e \<Rightarrow> (Inl e, tr1)
         | Inr raw \<Rightarrow>
             (case py_json_loads lib (JStr raw) of
                Inl e \<Rightarrow> (Inl e, tr1)
              | Inr payload \<Rightarrow> (di_embed_payload lib payload, tr1)))"

subsection \<open>\<^verbatim>\<open>query_processor.embed\<close>\<close>

definition qp_embed_payload :: "json \<Rightarrow> exn + json" where
  "qp_embed_payload payload =
     (case getitem payload ''embedding'' of
        Inl e \<Rightarrow> Inl e
      | Inr embedding \<Rightarrow>
          (case py_len embedding of Inl e \<Rightarrow> Inl e | Inr n \<Rightarrow> Inr embedding))"

definition qp_embed :: "pylib \<Rightarrow> config \<Rightarrow> env \<Rightarrow> string \<Rightarrow> json io" where
  "qp_embed lib cfg en text tr =
     (let body = json_dumps lib (JObj [(''inputText'', JStr text)]);
          tr1 = tr @ [InvokeModel (EMBED_MODEL_ID cfg) body]
      in case invoke_model en tr1 of
           Inl e \<Rightarrow> (Inl e, tr1)
         | Inr raw \<Rightarrow>
             (case py_json_loads lib (JStr raw) of
                Inl e \<Rightarrow> (Inl e, tr1)
              | Inr payload \<Rightarrow> (qp_embed_payload payload, tr1)))"

section \<open>Index writes\<close>



section \<open>Chunker\<close>

text \<open>
  \<^verbatim>\<open>chunk_text(text, max_len)\<close> is \<^verbatim>\<open>textwrap.wrap(text, max_len)\<close> with the defaults of
  \<^verbatim>\<open>TextWrapper\<close>: tabs expanded (tab size 8), whitespace replaced by spaces, long words
  broken, breaks allowed after hyphens, whitespace dropped at line ends, no indent, no
  line limit. The model follows \<^verbatim>\<open>textwrap.py\<close>.
\<close>

subsection \<open>Character classes\<close>


text \<open>\<^verbatim>\<open>str.isspace\<close>, the class \<^verbatim>\<open>str.strip()\<close> removes.\<close>

definition is_space :: "char \<Rightarrow> bool" where
  "is_space c = (let n = (of_char c :: nat) in
     (9 \<le> n \<and> n \<le> 13) \<or> (28 \<le> n \<and> n \<le> 32) \<or> n = 133 \<or> n = 160)"





definition is_blank :: "string \<Rightarrow> bool" where
  "is_blank s = (\<forall>c \<in> set s. is_space c)"

subsection \<open>\<^verbatim>\<open>_munge_whitespace\<close>\<close>



subsection \<open>\<^verbatim>\<open>_split\<close>: the word-separator pattern\<close>








subsection \<open>\<^verbatim>\<open>_wrap_chunks\<close>\<close>

text \<open>The inner loop: chunks are taken while they fit on the line.\<close>

fun fill_line :: "nat \<Rightarrow> nat \<Rightarrow> string list \<Rightarrow> string list \<times> string list" where
  "fill_line width cur_len [] = ([], [])"
| "fill_line width cur_len (c # cs) =
     (if cur_len + length c \<le> width
      then (case fill_line width (cur_len + length c) cs of (taken, rest) \<Rightarrow> (c # taken, rest))
      else ([], c # cs))"




definition chunks_weight :: "string list \<Rightarrow> nat" where
  "chunks_weight chunks = sum_list (map (\<lambda>c. Suc (length c)) chunks)"



lemma fill_line_stops: "fill_line w n cs = (t, d # ds) \<Longrightarrow> w < n + length (concat t) + length d"
proof (induction cs arbitrary: n t)
  case Nil
  then show ?case by simp
next
  case (Cons c cs)
  show ?case
  proof (cases "n + length c \<le> w")
    case True
    obtain t' r' where f: "fill_line w (n + length c) cs = (t', r')" by (cases "fill_line w (n + length c) cs")
    from Cons.prems True f have e: "t = c # t'" "r' = d # ds" by simp_all
    from Cons.IH[of "n + length c" t'] f e have "w < n + length c + length (concat t') + length d" by simp
    with e show ?thesis by simp
  next
    case False
    with Cons.prems show ?thesis by auto
  qed
qed



lemma chunks_weight_Nil: "chunks_weight [] = 0"
  by (simp add: chunks_weight_def)








section \<open>Ingestion handler\<close>

definition bind_exn :: "exn + 'a \<Rightarrow> ('a \<Rightarrow> exn + 'b) \<Rightarrow> exn + 'b" where
  "bind_exn r f = (case r of Inl e \<Rightarrow> Inl e | Inr x \<Rightarrow> f x)"

text \<open>\<^verbatim>\<open>for x in v\<close>: the elements of a list, the keys of a dictionary, the characters of a
  string; \<^verbatim>\<open>TypeError\<close> for a value that is not iterable.\<close>

fun py_iter :: "json \<Rightarrow> exn + json list" where
  "py_iter (JArr xs) = Inr xs"
| "py_iter (JObj kvs) = Inr (map (\<lambda>kv. JStr (fst kv)) kvs)"
| "py_iter (JStr s) = Inr (map (\<lambda>c. JStr [c]) s)"
| "py_iter v = Inl TypeError"







section \<open>Query processor\<close>

subsection \<open>String methods\<close>

text \<open>\<^verbatim>\<open>str.lower\<close> and \<^verbatim>\<open>str.upper\<close> on code points below 256. The upper case of
  \<^verbatim>\<open>U+00DF\<close> is \<^verbatim>\<open>"SS"\<close>; the upper cases of \<^verbatim>\<open>U+00B5\<close> and \<^verbatim>\<open>U+00FF\<close> lie
  beyond 255 and these two characters are left as they are.\<close>

definition lower_char :: "char \<Rightarrow> char" where
  "lower_char c = (let n = (of_char c :: nat) in
     if (65 \<le> n \<and> n \<le> 90) \<or> (192 \<le> n \<and> n \<le> 214) \<or> (216 \<le> n \<and> n \<le> 222)
     then char_of (n + 32) else c)"

definition py_lower :: "string \<Rightarrow> string" where
  "py_lower s = map lower_char s"

definition upper_char :: "char \<Rightarrow> string" where
  "upper_char c = (let n = (of_char c :: nat) in
     if (97 \<le> n \<and> n \<le> 122) \<or> (224 \<le> n \<and> n \<le> 246) \<or> (248 \<le> n \<and> n \<le> 254)
     then [char_of (n - 32)]
     else if n = 223 then ''SS'' else [c])"

definition py_upper :: "string \<Rightarrow> string" where
  "py_upper s = concat (map upper_char s)"

definition py_strip :: "string \<Rightarrow> string" where
  "py_strip s = rev (dropWhile is_space (rev (dropWhile is_space s)))"

fun map_exn :: "('a \<Rightarrow> exn + 'b) \<Rightarrow> 'a list \<Rightarrow> exn + 'b list" where
  "map_exn f [] = Inr []"
| "map_exn f (x # xs) =
     (case f x of
        Inl e \<Rightarrow> Inl e
      | Inr y \<Rightarrow> (case map_exn f xs of Inl e \<Rightarrow> Inl e | Inr ys \<Rightarrow> Inr (y # ys)))"

subsection \<open>\<^verbatim>\<open>search\<close>\<close>

text \<open>An element of the list \<^verbatim>\<open>sources\<close>, built for the log line with
  \<^verbatim>\<open>h["_source"]\<close>.\<close>

definition hit_source_logged :: "json \<Rightarrow> exn + json" where
  "hit_source_logged h =
     bind_exn (getitem h ''_source'') (\<lambda>s.
     bind_exn (dict_get s ''s3_key'' JNull) (\<lambda>k.
       if truthy k then Inr k
       else bind_exn (getitem h ''_source'') (\<lambda>s'. dict_get s' ''source'' JNull)))"

text \<open>An element of the returned list, built with \<^verbatim>\<open>h.get("_source", {})\<close>.\<close>

definition hit_context :: "json \<Rightarrow> exn + json" where
  "hit_context h =
     bind_exn (dict_get h ''_source'' (JObj [])) (\<lambda>s1.
     bind_exn (dict_get s1 ''chunk_text'' (JStr [])) (\<lambda>text.
     bind_exn (dict_get h ''_source'' (JObj [])) (\<lambda>s2.
     bind_exn (dict_get s2 ''s3_key'' JNull) (\<lambda>k.
     bind_exn (if truthy k then Inr k
               else bind_exn (dict_get h ''_source'' (JObj [])) (\<lambda>s3. dict_get s3 ''source'' JNull))
       (\<lambda>source.
     bind_exn (dict_get h ''_score'' JNull) (\<lambda>score.
       Inr (JObj [(''text'', text), (''source'', source), (''score'', score)])))))))"

definition search_body :: "json \<Rightarrow> int \<Rightarrow> json" where
  "search_body vec k =
     JObj [(''size'', JInt k),
           (''query'', JObj [(''knn'', JObj [(''embedding'',
              JObj [(''vector'', vec), (''k'', JInt k)])])])]"

definition search :: "config \<Rightarrow> env \<Rightarrow> json \<Rightarrow> int \<Rightarrow> (json list) io" where
  "search cfg en vec k tr =
     (case py_len vec of
        Inl e \<Rightarrow> (Inl e, tr)
      | Inr n \<Rightarrow>
          (let tr1 = tr @ [SearchIndex (OPENSEARCH_INDEX cfg) (search_body vec k)] in
           case os_search en tr1 of
             Inl e \<Rightarrow> (Inl e, tr1)
           | Inr res \<Rightarrow>
               (bind_exn (dict_get res ''hits'' (JObj [])) (\<lambda>hs.
                bind_exn (dict_get hs ''hits'' (JArr [])) (\<lambda>hits.
                bind_exn (dict_get res ''hits'' (JObj [])) (\<lambda>hs'.
                bind_exn (dict_get hs' ''total'' JNull) (\<lambda>total_field.
                bind_exn (py_iter hits) (\<lambda>hit_list.
                bind_exn (map_exn hit_source_logged hit_list) (\<lambda>sources.
                bind_exn (py_len hits) (\<lambda>returned.
                  map_exn hit_context hit_list))))))),
                tr1)))"

subsection \<open>\<^verbatim>\<open>answer_with_context\<close>\<close>

definition system_instruction :: string where
  "system_instruction =
     ''You are an AWS tutor. Only answer using the provided Context. ''
     @ ''If the Context is insufficient or off-topic, say you don'' @ [CHR 0x27] @ ''t know. ''
     @ ''Always include citations as [Snippet N] where N matches the provided snippets. ''
     @ ''Never use external knowledge.''"

fun snippets :: "pylib \<Rightarrow> nat \<Rightarrow> json list \<Rightarrow> exn + string list" where
  "snippets lib i [] = Inr []"
| "snippets lib i (c # cs) =
     (case getitem c ''text'' of
        Inl e \<Rightarrow> Inl e
      | Inr t \<Rightarrow>
          (case snippets lib (Suc i) cs of
             Inl e \<Rightarrow> Inl e
           | Inr rest \<Rightarrow>
               Inr ((''Snippet '' @ str_nat (i + 1) @ '':'' @ [CHR 0x0A] @ py_str lib t) # rest)))"

definition build_prompt :: "string \<Rightarrow> string \<Rightarrow> string" where
  "build_prompt question context_blob =
     system_instruction @ [CHR 0x0A, CHR 0x0A] @ ''Question:'' @ [CHR 0x0A] @ question
       @ [CHR 0x0A, CHR 0x0A] @ ''Context:'' @ [CHR 0x0A] @ context_blob
       @ [CHR 0x0A, CHR 0x0A] @ ''Answer:''"

definition model_id_to_use :: "config \<Rightarrow> string" where
  "model_id_to_use cfg =
     (case GEN_INFERENCE_PROFILE_ID cfg of
        None \<Rightarrow> GEN_MODEL_ID cfg
      | Some p \<Rightarrow> if p = [] then GEN_MODEL_ID cfg else p)"

definition is_anthropic :: "config \<Rightarrow> bool" where
  "is_anthropic cfg = str_contains ''anthropic'' (py_lower (model_id_to_use cfg))"

definition request_body :: "config \<Rightarrow> string \<Rightarrow> json" where
  "request_body cfg prompt =
     JObj ([(''messages'', JArr [JObj [(''role'', JStr ''user''),
              (''content'', JArr [JObj [(''type'', JStr ''text''), (''text'', JStr prompt)]])]]),
            (''max_tokens'', JInt 500)]
           @ (if is_anthropic cfg then [(''anthropic_version'', JStr ''bedrock-2023-05-31'')] else []))"

text \<open>The value of \<^verbatim>\<open>answer\<close> before the test \<^verbatim>\<open>answer is None\<close>, for a model of the
  Anthropic family: \<open>JNull\<close> is \<^verbatim>\<open>None\<close>.\<close>

definition anthropic_answer :: "json \<Rightarrow> exn + json" where
  "anthropic_answer payload =
     bind_exn (dict_get payload ''content'' JNull) (\<lambda>c.
       (case py_or c (JArr []) of
          JArr (block # blocks) \<Rightarrow>
            bind_exn (py_in ''text'' block) (\<lambda>has_text.
              if has_text then getitem block ''text'' else Inr JNull)
        | other \<Rightarrow> Inr JNull))"

text \<open>The same for every other model.\<close>

definition other_answer :: "json \<Rightarrow> exn + json" where
  "other_answer payload =
     bind_exn (dict_get payload ''output'' JNull) (\<lambda>ou.
       (case py_or ou (JArr []) of
          JArr (first # outputs) \<Rightarrow>
            bind_exn (dict_get first ''content'' JNull) (\<lambda>c.
              if truthy c then
                bind_exn (getitem first ''content'') (\<lambda>c'.
                  if is_list c' then
                    bind_exn (getitem0 c') (\<lambda>block.
                    bind_exn (dict_get block ''text'' JNull) (\<lambda>t.
                      if t \<noteq> JNull then
                        bind_exn (getitem first ''content'') (\<lambda>c''.
                        bind_exn (getitem0 c'') (\<lambda>block'. getitem block' ''text''))
                      else Inr JNull))
                  else Inr JNull)
              else Inr JNull)
        | other \<Rightarrow> Inr JNull))"

text \<open>From the parsed payload to the returned answer; \<^verbatim>\<open>len(answer)\<close> is evaluated
  for the log line.\<close>

definition parse_answer :: "config \<Rightarrow> json \<Rightarrow> exn + json" where
  "parse_answer cfg payload =
     bind_exn (if is_anthropic cfg then anthropic_answer payload else other_answer payload)
       (\<lambda>answer.
          if answer = JNull then Inl (ValueError ''Unexpected model response format'')
          else bind_exn (py_len answer) (\<lambda>n. Inr answer))"

definition answer_with_context ::
  "pylib \<Rightarrow> config \<Rightarrow> env \<Rightarrow> string \<Rightarrow> json list \<Rightarrow> json io" where
  "answer_with_context lib cfg en question contexts tr =
     (case snippets lib 0 contexts of
        Inl e \<Rightarrow> (Inl e, tr)
      | Inr parts \<Rightarrow>
          (let prompt = build_prompt question (join [CHR 0x0A, CHR 0x0A] parts);
               body = json_dumps lib (request_body cfg prompt);
               tr1 = tr @ [InvokeModel (model_id_to_use cfg) body]
           in case invoke_model en tr1 of
                Inl e \<Rightarrow> (Inl e, tr1)
              | Inr raw \<Rightarrow>
                  (case py_json_loads lib (JStr raw) of
                     Inl e \<Rightarrow> (Inl e, tr1)
                   | Inr payload \<Rightarrow> (parse_answer cfg payload, tr1))))"

subsection \<open>\<^verbatim>\<open>handler\<close>\<close>

record response =
  statusCode :: int
  headers :: "(string \<times> string) list"
  body :: string

definition CORS_HEADERS :: "config \<Rightarrow> (string \<times> string) list" where
  "CORS_HEADERS cfg =
     [(''Access-Control-Allow-Origin'', CORS_ALLOW_ORIGIN cfg),
      (''Access-Control-Allow-Headers'', ''Content-Type, Authorization''),
      (''Access-Control-Allow-Methods'', ''POST, OPTIONS'')]"

text \<open>\<^verbatim>\<open>_response(status, body_obj)\<close>; the handler never passes \<^verbatim>\<open>headers\<close>.\<close>

definition response_of :: "pylib \<Rightarrow> config \<Rightarrow> int \<Rightarrow> json option \<Rightarrow> response" where
  "response_of lib cfg status body_obj =
     \<lparr> statusCode = status,
       headers = (''Content-Type'', ''application/json'') # CORS_HEADERS cfg,
       body = (case body_obj of None \<Rightarrow> [] | Some b \<Rightarrow> json_dumps lib b) \<rparr>"

text \<open>\<^verbatim>\<open>(event.get("requestContext", {}).get("http", {}) or {}).get("method", "").upper()\<close>\<close>

definition request_method :: "json \<Rightarrow> exn + string" where
  "request_method event =
     bind_exn (dict_get event ''requestContext'' (JObj [])) (\<lambda>rc.
     bind_exn (dict_get rc ''http'' (JObj [])) (\<lambda>h.
     bind_exn (dict_get (py_or h (JObj [])) ''method'' (JStr [])) (\<lambda>m.
       case m of JStr s \<Rightarrow> Inr (py_upper s) | other \<Rightarrow> Inl AttributeError)))"

text \<open>\<^verbatim>\<open>json.loads(event.get("body") or "{}")\<close>\<close>

definition parsed_body :: "pylib \<Rightarrow> json \<Rightarrow> exn + json" where
  "parsed_body lib event =
     bind_exn (dict_get event ''body'' JNull) (\<lambda>b. py_json_loads lib (py_or b (JStr ''{}'')))"

text \<open>\<^verbatim>\<open>body.get("question", "").strip()\<close>, cut to 4000 characters.\<close>

definition request_question :: "pylib \<Rightarrow> json \<Rightarrow> exn + string" where
  "request_question lib event =
     bind_exn (parsed_body lib event) (\<lambda>body.
     bind_exn (dict_get body ''question'' (JStr [])) (\<lambda>q.
       case q of
         JStr s \<Rightarrow>
           (let question = py_strip s in
            Inr (if 4000 < length question then take 4000 question else question))
       | other \<Rightarrow> Inl AttributeError))"

fun numbered_sources :: "nat \<Rightarrow> json list \<Rightarrow> exn + json list" where
  "numbered_sources i [] = Inr []"
| "numbered_sources i (c # cs) =
     (case c of
        JObj kvs \<Rightarrow>
          (case numbered_sources (Suc i) cs of
             Inl e \<Rightarrow> Inl e
           | Inr rest \<Rightarrow>
               Inr (JObj (dict_update [(''snippet_index'', JInt (int i + 1))] kvs) # rest))
      | other \<Rightarrow> Inl TypeError)"

text \<open>The body of the \<^verbatim>\<open>try\<close> block of \<^verbatim>\<open>query_processor.handler\<close>.\<close>

definition qp_handler_try :: "pylib \<Rightarrow> config \<Rightarrow> env \<Rightarrow> json \<Rightarrow> response io" where
  "qp_handler_try lib cfg en event tr =
     (case qp_ensure_index_exists cfg en tr of
        (Inl e, tr1) \<Rightarrow> (Inl e, tr1)
      | (Inr u, tr1) \<Rightarrow>
          (case request_method event of
             Inl e \<Rightarrow> (Inl e, tr1)
           | Inr method \<Rightarrow>
               if method = ''OPTIONS''
               then (Inr \<lparr> statusCode = 204, headers = CORS_HEADERS cfg, body = [] \<rparr>, tr1)
               else
                 (case request_question lib event of
                    Inl e \<Rightarrow> (Inl e, tr1)
                  | Inr question \<Rightarrow>
                      if question = []
                      then (Inr (response_of lib cfg 400
                                   (Some (JObj [(''error'', JStr ''question required'')]))), tr1)
                      else
                        (case qp_embed lib cfg en question tr1 of
                           (Inl e, tr2) \<Rightarrow> (Inl e, tr2)
                         | (Inr qvec, tr2) \<Rightarrow>
                             (case search cfg en qvec 5 tr2 of
                                (Inl e, tr3) \<Rightarrow> (Inl e, tr3)
                              | (Inr contexts, tr3) \<Rightarrow>
                                  (case answer_with_context lib cfg en question contexts tr3 of
                                     (Inl e, tr4) \<Rightarrow> (Inl e, tr4)
                                   | (Inr answer, tr4) \<Rightarrow>
                                       (case numbered_sources 0 contexts of
                                          Inl e \<Rightarrow> (Inl e, tr4)
                                        | Inr sources \<Rightarrow>
                                            (Inr (response_of lib cfg 200
                                                    (Some (JObj [(''answer'', answer),
                                                                 (''sources'', JArr sources)]))),
                                             tr4))))))))"

text \<open>\<^verbatim>\<open>os.environ.get("DEBUG_PUBLIC_ERRORS", "false").lower() in ("1", "true", "yes")\<close>\<close>

definition debug_public_errors :: "config \<Rightarrow> bool" where
  "debug_public_errors cfg =
     (let v = py_lower (case DEBUG_PUBLIC_ERRORS cfg of None \<Rightarrow> ''false'' | Some x \<Rightarrow> x)
      in v = ''1'' \<or> v = ''true'' \<or> v = ''yes'')"

text \<open>\<^verbatim>\<open>except Exception as e\<close> of the handler: the response built from the exception.\<close>

definition error_response :: "pylib \<Rightarrow> config \<Rightarrow> exn \<Rightarrow> response" where
  "error_response lib cfg e =
     (if debug_public_errors cfg
      then response_of lib cfg 500
             (Some (JObj [(''error'', JStr ''internal_error''),
                          (''error_type'', JStr (exn_type_name e)),
                          (''message'', JStr (take 500 (exn_str lib e)))]))
      else response_of lib cfg 500 (Some (JObj [(''error'', JStr ''internal_error'')])))"

definition qp_handler ::
  "pylib \<Rightarrow> config \<Rightarrow> env \<Rightarrow> json \<Rightarrow> call list \<Rightarrow> response \<times> call list" where
  "qp_handler lib cfg en event tr =
     (case qp_handler_try lib cfg en event tr of
        (Inl e, tr') \<Rightarrow> (error_response lib cfg e, tr')
      | (Inr r, tr') \<Rightarrow> (r, tr'))"

section \<open>Sample configuration and services\<close>

text \<open>The configuration a process gets when only \<^verbatim>\<open>OPENSEARCH_ENDPOINT\<close> is set: the
  defaults written in the two modules.\<close>

definition default_config :: config where
  "default_config =
     \<lparr> EMBED_MODEL_ID = ''amazon.titan-embed-text-v2:0'',
       GEN_MODEL_ID = ''anthropic.claude-3-5-sonnet-20241022-v2:0'',
       GEN_INFERENCE_PROFILE_ID = None,
       OPENSEARCH_INDEX = ''kb_chunks'',
       CORS_ALLOW_ORIGIN = ''*'',
       DEBUG_PUBLIC_ERRORS = None \<rparr>"

text \<open>A library whose \<^verbatim>\<open>json.loads\<close> knows the texts of a table and rejects every other
  text.\<close>

definition lib_with :: "(string \<times> json) list \<Rightarrow> pylib" where
  "lib_with table =
     \<lparr> json_loads = (\<lambda>s. case map_of table s of
                         Some v \<Rightarrow> Inr v
                       | None \<Rightarrow> Inl (ServiceError ''JSONDecodeError'' ''Expecting value'')),
       float_repr = (\<lambda>f. ''0.0''),
       repr_other = (\<lambda>v. ''[]''),
       md5_hexdigest = (\<lambda>k. ''d41d8cd98f00b204e9800998ecf8427e''),
       interp_message = (\<lambda>e. ''unsupported operand'') \<rparr>"

text \<open>Services that answer every call the same way: whether the index exists, the raw
  body of every model response, the search result and the text of every object.\<close>

definition env_with :: "bool \<Rightarrow> exn + string \<Rightarrow> json \<Rightarrow> string \<Rightarrow> env" where
  "env_with index_there model_answer search_result object_text =
     \<lparr> indices_exists = (\<lambda>tr. Inr index_there),
       indices_create = (\<lambda>tr. Inr ()),
       invoke_model = (\<lambda>tr. model_answer),
       os_search = (\<lambda>tr. Inr search_result),
       os_index = (\<lambda>tr. Inr ()),
       get_object = (\<lambda>tr. Inr object_text) \<rparr>"

section \<open>Notions of the specification\<close>










section \<open>Sample events and responses\<close>

definition options_event :: json where
  "options_event = JObj [(''requestContext'', JObj [(''http'', JObj [(''method'', JStr ''OPTIONS'')])])]"

definition post_event :: "string \<Rightarrow> json" where
  "post_event raw_body =
     JObj [(''requestContext'', JObj [(''http'', JObj [(''method'', JStr ''POST'')])]),
           (''body'', JStr raw_body)]"

text \<open>The JSON text of a request body with the question \<open>q\<close> (already escaped).\<close>

definition question_raw :: "string \<Rightarrow> string" where
  "question_raw q = ''{'' @ [CHR 0x22] @ ''question'' @ [CHR 0x22] @ '': '' @ [CHR 0x22] @ q @ [CHR 0x22] @ ''}''"



definition outputs_raw :: string where
  "outputs_raw = ''{'' @ [CHR 0x22] @ ''outputs'' @ [CHR 0x22] @ '': [{'' @ [CHR 0x22]
     @ ''embedding'' @ [CHR 0x22] @ '': [1, 2]}]}''"

definition outputs_payload :: json where
  "outputs_payload = JObj [(''outputs'', JArr [JObj [(''embedding'', JArr [JInt 1, JInt 2])]])]"


section \<open>Words\<close>







section \<open>Shared facts\<close>


lemma bind_exn_Inl: "bind_exn (Inl e) f = Inl e"
  by (simp add: bind_exn_def)

lemma ensure_index_exists_trace:
  "snd (ensure_index_exists en idx tr) = tr @ [IndicesExists idx]
   \<or> snd (ensure_index_exists en idx tr) = tr @ [IndicesExists idx, IndicesCreate idx index_config]"
  by (simp add: ensure_index_exists_def ensure_index_exists_try_def Let_def
      split: prod.splits sum.splits bool.splits)

lemma ensure_index_exists_ok: "fst (ensure_index_exists en idx tr) = Inr ()"
  by (simp add: ensure_index_exists_def split: prod.splits sum.splits)

lemma qp_ensure_pair:
  "qp_ensure_index_exists cfg en tr = (Inr (), snd (ensure_index_exists en (OPENSEARCH_INDEX cfg) tr))"
  using ensure_index_exists_ok[of en "OPENSEARCH_INDEX cfg" tr]
  by (simp add: qp_ensure_index_exists_def prod_eq_iff)


section \<open>Index schema creation never raises\<close>

text \<open>
  Claim C9. In both modules \<^verbatim>\<open>ensure_index_exists\<close> returns normally whatever the
  index service answers and whatever happened before: on any trace (so also right after an
  earlier call, when the index exists or another creator has won the race and
  \<^verbatim>\<open>indices.create\<close> raises) the result is \<^verbatim>\<open>None\<close>, never an exception.
\<close>

theorem ensure_index_exists_never_raises:
  "fst (di_ensure_index_exists cfg en tr) = Inr ()
   \<and> fst (qp_ensure_index_exists cfg en tr) = Inr ()
   \<and> fst (di_ensure_index_exists cfg en (snd (di_ensure_index_exists cfg en tr))) = Inr ()
   \<and> fst (qp_ensure_index_exists cfg en (snd (qp_ensure_index_exists cfg en tr))) = Inr ()"
  by (simp add: di_ensure_index_exists_def qp_ensure_index_exists_def ensure_index_exists_ok)

section \<open>The two embedding functions and the response shapes\<close>

text \<open>
  Claim C2 at its failing input. Both functions send the same request for a text. When
  the model answers with the nested shape \<^verbatim>\<open>{"outputs": [{"embedding": [...]}]}\<close>, the
  ingestion path returns the vector, and the query path, which reads
  \<^verbatim>\<open>payload["embedding"]\<close> only, raises \<^verbatim>\<open>KeyError('embedding')\<close>.
\<close>

theorem qp_embed_misses_outputs_shape:
  assumes call: "invoke_model en (tr @ [InvokeModel (EMBED_MODEL_ID cfg)
                    (json_dumps lib (JObj [(''inputText'', JStr text)]))]) = Inr raw"
    and raw: "py_json_loads lib (JStr raw) = Inr (JObj [(''outputs'', JArr [JObj [(''embedding'', JArr vec)]])])"
  shows "fst (di_embed lib cfg en text None None None tr) = Inr (JArr vec)
       \<and> fst (qp_embed lib cfg en text tr) = Inl (key_error ''embedding'')"
  using call raw
  by (simp add: di_embed_def qp_embed_def Let_def native_request_def
      di_embed_payload_def qp_embed_payload_def)

text \<open>The same at a sample response.\<close>

theorem qp_embed_misses_outputs_shape_witness:
  "fst (di_embed (lib_with [(outputs_raw, outputs_payload)]) default_config
          (env_with True (Inr outputs_raw) JNull []) ''hello'' None None None [])
     = Inr (JArr [JInt 1, JInt 2])
   \<and> fst (qp_embed (lib_with [(outputs_raw, outputs_payload)]) default_config
          (env_with True (Inr outputs_raw) JNull []) ''hello'' [])
     = Inl (KeyError ([CHR 0x27] @ ''embedding'' @ [CHR 0x27]))"
  using qp_embed_misses_outputs_shape
          [of "env_with True (Inr outputs_raw) JNull []" "[]" default_config
              "lib_with [(outputs_raw, outputs_payload)]" "''hello''" outputs_raw "[JInt 1, JInt 2]"]
  by (simp add: env_with_def lib_with_def outputs_raw_def outputs_payload_def key_error_def)

text \<open>On the direct shape the two paths agree.\<close>

theorem embed_direct_shape_both_paths:
  assumes call: "invoke_model en (tr @ [InvokeModel (EMBED_MODEL_ID cfg)
                    (json_dumps lib (JObj [(''inputText'', JStr text)]))]) = Inr raw"
    and raw: "py_json_loads lib (JStr raw) = Inr (JObj [(''embedding'', JArr vec)])"
  shows "fst (di_embed lib cfg en text None None None tr) = Inr (JArr vec)
       \<and> fst (qp_embed lib cfg en text tr) = Inr (JArr vec)"
  using call raw
  by (simp add: di_embed_def qp_embed_def Let_def native_request_def
      di_embed_payload_def qp_embed_payload_def)

section \<open>Malformed embedding responses\<close>









text \<open>A response that is not an object does not reach the malformed-response branch:
  the membership test itself raises.\<close>

lemma embed_non_object_payload:
  "di_embed_payload lib (JInt 5) = Inl TypeError"
  by (simp add: di_embed_payload_def)

section \<open>The query handler: preflight and validation\<close>

lemma qp_handler_try_options:
  assumes "request_method event = Inr ''OPTIONS''"
  shows "qp_handler_try lib cfg en event tr
           = (Inr \<lparr> statusCode = 204, headers = CORS_HEADERS cfg, body = [] \<rparr>,
              snd (ensure_index_exists en (OPENSEARCH_INDEX cfg) tr))"
  using assms by (simp add: qp_handler_try_def qp_ensure_pair)

lemma py_strip_blank: "is_blank s \<Longrightarrow> py_strip s = []"
proof -
  assume "is_blank s"
  then have d: "dropWhile is_space s = []" by (simp add: is_blank_def)
  show ?thesis unfolding py_strip_def d by simp
qed

lemma py_strip_Nil: "py_strip [] = []"
  by (simp add: py_strip_def)

lemma request_question_blank:
  assumes "parsed_body lib event = Inr (JObj kvs)"
    and "map_of kvs ''question'' = None \<or> (\<exists>s. map_of kvs ''question'' = Some (JStr s) \<and> is_blank s)"
  shows "request_question lib event = Inr []"
proof -
  from assms(2) have "\<exists>s. dict_get (JObj kvs) ''question'' (JStr []) = Inr (JStr s) \<and> py_strip s = []"
  proof
    assume "map_of kvs ''question'' = None"
    then show ?thesis by (simp add: py_strip_Nil)
  next
    assume "\<exists>s. map_of kvs ''question'' = Some (JStr s) \<and> is_blank s"
    then show ?thesis by (auto simp: py_strip_blank)
  qed
  then obtain s where "dict_get (JObj kvs) ''question'' (JStr []) = Inr (JStr s)" "py_strip s = []"
    by blast
  with assms(1) show ?thesis by (simp add: request_question_def bind_exn_def)
qed

lemma qp_handler_try_blank:
  assumes "request_method event = Inr meth" and "meth \<noteq> ''OPTIONS''"
    and "parsed_body lib event = Inr (JObj kvs)"
    and "map_of kvs ''question'' = None \<or> (\<exists>s. map_of kvs ''question'' = Some (JStr s) \<and> is_blank s)"
  shows "qp_handler_try lib cfg en event tr
           = (Inr (response_of lib cfg 400 (Some (JObj [(''error'', JStr ''question required'')]))),
              snd (ensure_index_exists en (OPENSEARCH_INDEX cfg) tr))"
  using assms(1,2) request_question_blank[OF assms(3,4)]
  by (simp add: qp_handler_try_def qp_ensure_pair)

lemma response_400:
  "response_of lib cfg 400 (Some (JObj [(''error'', JStr ''question required'')]))
     = \<lparr> statusCode = 400,
         headers = (''Content-Type'', ''application/json'') # CORS_HEADERS cfg,
         body = ''{'' @ [CHR 0x22] @ ''error'' @ [CHR 0x22] @ '': '' @ [CHR 0x22]
                  @ ''question required'' @ [CHR 0x22] @ ''}'' \<rparr>"
  by (simp add: response_of_def dumps_str_def escape_char_def)

lemma response_500:
  "response_of lib cfg 500 (Some (JObj [(''error'', JStr ''internal_error'')]))
     = \<lparr> statusCode = 500,
         headers = (''Content-Type'', ''application/json'') # CORS_HEADERS cfg,
         body = ''{'' @ [CHR 0x22] @ ''error'' @ [CHR 0x22] @ '': '' @ [CHR 0x22]
                  @ ''internal_error'' @ [CHR 0x22] @ ''}'' \<rparr>"
  by (simp add: response_of_def dumps_str_def escape_char_def)

lemma options_event_method: "request_method options_event = Inr ''OPTIONS''"
  by (simp add: request_method_def options_event_def bind_exn_def py_or_def py_upper_def upper_char_def)

lemma post_event_method: "request_method (post_event raw) = Inr ''POST''"
  by (simp add: request_method_def post_event_def bind_exn_def py_or_def py_upper_def upper_char_def)

lemma post_event_body:
  "parsed_body (lib_with [(question_raw q, JObj [(''question'', JStr q')])]) (post_event (question_raw q))
     = Inr (JObj [(''question'', JStr q')])"
  by (simp add: parsed_body_def post_event_def bind_exn_def py_or_def lib_with_def question_raw_def)

text \<open>
  Claim C5, amended. For an event whose method is \<^verbatim>\<open>OPTIONS\<close> the handler returns
  status 204 with the CORS headers and an empty body, and the only calls it makes are those
  of \<^verbatim>\<open>ensure_index_exists\<close>, which runs first: the existence check, and the creation
  when the index is reported missing. No model is invoked and no search is made.
\<close>

theorem options_preflight:
  assumes "request_method event = Inr ''OPTIONS''"
  shows "fst (qp_handler lib cfg en event tr)
           = \<lparr> statusCode = 204, headers = CORS_HEADERS cfg, body = [] \<rparr>
       \<and> (snd (qp_handler lib cfg en event tr) = tr @ [IndicesExists (OPENSEARCH_INDEX cfg)]
          \<or> snd (qp_handler lib cfg en event tr)
               = tr @ [IndicesExists (OPENSEARCH_INDEX cfg),
                       IndicesCreate (OPENSEARCH_INDEX cfg) index_config])"
  using qp_handler_try_options[OF assms, of lib cfg en tr]
        ensure_index_exists_trace[of en "OPENSEARCH_INDEX cfg" tr]
  by (simp add: qp_handler_def)

theorem options_preflight_witness:
  "fst (qp_handler (lib_with []) default_config (env_with True (Inr []) JNull []) options_event [])
     = \<lparr> statusCode = 204,
         headers = [(''Access-Control-Allow-Origin'', ''*''),
                    (''Access-Control-Allow-Headers'', ''Content-Type, Authorization''),
                    (''Access-Control-Allow-Methods'', ''POST, OPTIONS'')],
         body = [] \<rparr>"
  using options_preflight[where event = options_event and lib = "lib_with []"
          and cfg = default_config and en = "env_with True (Inr []) JNull []" and tr = "[]"]
        options_event_method
  by (simp add: CORS_HEADERS_def default_config_def)

text \<open>
  Claim C5 as stated fails: when the index does not exist yet, an \<^verbatim>\<open>OPTIONS\<close> request
  checks for the index and creates it before the 204 is returned.
\<close>

theorem options_preflight_provisions_schema:
  "qp_handler (lib_with []) default_config (env_with False (Inr []) JNull []) options_event []
     = (\<lparr> statusCode = 204, headers = CORS_HEADERS default_config, body = [] \<rparr>,
        [IndicesExists ''kb_chunks'', IndicesCreate ''kb_chunks'' index_config])"
  by (simp add: qp_handler_def qp_handler_try_options[OF options_event_method]
      ensure_index_exists_def ensure_index_exists_try_def env_with_def default_config_def Let_def)



text \<open>
  Claim C10. The same for a \<^verbatim>\<open>question\<close> made of whitespace only: \<^verbatim>\<open>strip()\<close> leaves
  the empty string, so the answer is the 400 of the empty question, again with no model
  call and no search.
\<close>

theorem whitespace_question_rejected:
  assumes "request_method event = Inr meth" and "meth \<noteq> ''OPTIONS''"
    and "parsed_body lib event = Inr (JObj kvs)"
    and "map_of kvs ''question'' = Some (JStr s)" and "\<forall>c \<in> set s. is_space c"
  shows "py_strip s = []
       \<and> fst (qp_handler lib cfg en event tr)
           = \<lparr> statusCode = 400,
               headers = (''Content-Type'', ''application/json'') # CORS_HEADERS cfg,
               body = ''{'' @ [CHR 0x22] @ ''error'' @ [CHR 0x22] @ '': '' @ [CHR 0x22]
                        @ ''question required'' @ [CHR 0x22] @ ''}'' \<rparr>
       \<and> (snd (qp_handler lib cfg en event tr) = tr @ [IndicesExists (OPENSEARCH_INDEX cfg)]
          \<or> snd (qp_handler lib cfg en event tr)
               = tr @ [IndicesExists (OPENSEARCH_INDEX cfg),
                       IndicesCreate (OPENSEARCH_INDEX cfg) index_config])"
proof -
  from assms(5) have b: "is_blank s" by (simp add: is_blank_def)
  with assms(4)
  have "map_of kvs ''question'' = None
        \<or> (\<exists>s. map_of kvs ''question'' = Some (JStr s) \<and> is_blank s)"
    by blast
  from qp_handler_try_blank[OF assms(1,2,3) this, of cfg en tr]
       ensure_index_exists_trace[of en "OPENSEARCH_INDEX cfg" tr] py_strip_blank[OF b]
  show ?thesis
    by (simp add: qp_handler_def response_400)
qed

theorem whitespace_question_rejected_witness:
  "fst (qp_handler (lib_with [(question_raw [CHR 0x20, CHR 0x20, CHR 0x5C, CHR ''t'', CHR 0x20], JObj [(''question'', JStr [CHR 0x20, CHR 0x20, CHR 0x09, CHR 0x20])])])
          default_config (env_with True (Inr []) JNull []) (post_event (question_raw [CHR 0x20, CHR 0x20, CHR 0x5C, CHR ''t'', CHR 0x20])) [])
     = \<lparr> statusCode = 400,
         headers = [(''Content-Type'', ''application/json''),
                    (''Access-Control-Allow-Origin'', ''*''),
                    (''Access-Control-Allow-Headers'', ''Content-Type, Authorization''),
                    (''Access-Control-Allow-Methods'', ''POST, OPTIONS'')],
         body = ''{'' @ [CHR 0x22] @ ''error'' @ [CHR 0x22] @ '': '' @ [CHR 0x22]
                  @ ''question required'' @ [CHR 0x22] @ ''}'' \<rparr>"
  using whitespace_question_rejected
          [where event = "post_event (question_raw [CHR 0x20, CHR 0x20, CHR 0x5C, CHR ''t'', CHR 0x20])" and meth = "''POST''"
             and lib = "lib_with [(question_raw [CHR 0x20, CHR 0x20, CHR 0x5C, CHR ''t'', CHR 0x20], JObj [(''question'', JStr [CHR 0x20, CHR 0x20, CHR 0x09, CHR 0x20])])]"
             and kvs = "[(''question'', JStr [CHR 0x20, CHR 0x20, CHR 0x09, CHR 0x20])]"
             and s = "[CHR 0x20, CHR 0x20, CHR 0x09, CHR 0x20]" and cfg = default_config
             and en = "env_with True (Inr []) JNull []" and tr = "[]"]
        post_event_method[of "question_raw [CHR 0x20, CHR 0x20, CHR 0x5C, CHR ''t'', CHR 0x20]"]
        post_event_body[of "[CHR 0x20, CHR 0x20, CHR 0x5C, CHR ''t'', CHR 0x20]" "[CHR 0x20, CHR 0x20, CHR 0x09, CHR 0x20]"]
  by (simp add: CORS_HEADERS_def default_config_def is_space_def)

section \<open>The query handler: errors\<close>

text \<open>
  Claim C8. Whatever exception the \<^verbatim>\<open>try\<close> block raises, the handler returns a
  response with status 500. Its body is \<^verbatim>\<open>{"error": "internal_error"}\<close> unless
  \<^verbatim>\<open>DEBUG_PUBLIC_ERRORS\<close> is one of \<^verbatim>\<open>1\<close>, \<^verbatim>\<open>true\<close>, \<^verbatim>\<open>yes\<close> (in any case of
  letters); only then are the error type and the first 500 characters of the message added.
  An unset variable never enables it.
\<close>

theorem unhandled_error_response:
  assumes "qp_handler_try lib cfg en event tr = (Inl e, tr')"
  shows "fst (qp_handler lib cfg en event tr)
           = \<lparr> statusCode = 500,
               headers = (''Content-Type'', ''application/json'') # CORS_HEADERS cfg,
               body = (if debug_public_errors cfg
                       then json_dumps lib
                              (JObj [(''error'', JStr ''internal_error''),
                                     (''error_type'', JStr (exn_type_name e)),
                                     (''message'', JStr (take 500 (exn_str lib e)))])
                       else ''{'' @ [CHR 0x22] @ ''error'' @ [CHR 0x22] @ '': '' @ [CHR 0x22]
                              @ ''internal_error'' @ [CHR 0x22] @ ''}'') \<rparr>
       \<and> (DEBUG_PUBLIC_ERRORS cfg = None \<longrightarrow> \<not> debug_public_errors cfg)"
proof -
  have "DEBUG_PUBLIC_ERRORS cfg = None \<longrightarrow> \<not> debug_public_errors cfg"
    by (simp add: debug_public_errors_def py_lower_def lower_char_def)
  moreover have "fst (qp_handler lib cfg en event tr) = error_response lib cfg e"
    using assms by (simp add: qp_handler_def)
  moreover have "\<not> debug_public_errors cfg \<Longrightarrow> error_response lib cfg e
      = \<lparr> statusCode = 500,
         headers = (''Content-Type'', ''application/json'') # CORS_HEADERS cfg,
         body = ''{'' @ [CHR 0x22] @ ''error'' @ [CHR 0x22] @ '': '' @ [CHR 0x22]
                  @ ''internal_error'' @ [CHR 0x22] @ ''}'' \<rparr>"
    by (simp add: error_response_def response_500)
  moreover have "debug_public_errors cfg \<Longrightarrow> error_response lib cfg e
      = \<lparr> statusCode = 500,
         headers = (''Content-Type'', ''application/json'') # CORS_HEADERS cfg,
         body = json_dumps lib
                              (JObj [(''error'', JStr ''internal_error''),
                                     (''error_type'', JStr (exn_type_name e)),
                                     (''message'', JStr (take 500 (exn_str lib e)))]) \<rparr>"
    by (simp add: error_response_def response_of_def)
  ultimately show ?thesis by (cases "debug_public_errors cfg") simp_all
qed

text \<open>A model call refused by the service, after a valid question.\<close>

theorem unhandled_error_response_witness:
  "fst (qp_handler (lib_with [(question_raw ''hi'', JObj [(''question'', JStr ''hi'')])]) default_config
          (env_with True (Inl (ServiceError ''ClientError'' ''AccessDeniedException'')) JNull [])
          (post_event (question_raw ''hi'')) [])
     = \<lparr> statusCode = 500,
         headers = [(''Content-Type'', ''application/json''),
                    (''Access-Control-Allow-Origin'', ''*''),
                    (''Access-Control-Allow-Headers'', ''Content-Type, Authorization''),
                    (''Access-Control-Allow-Methods'', ''POST, OPTIONS'')],
         body = ''{'' @ [CHR 0x22] @ ''error'' @ [CHR 0x22] @ '': '' @ [CHR 0x22]
                  @ ''internal_error'' @ [CHR 0x22] @ ''}'' \<rparr>"
proof -
  let ?lib = "lib_with [(question_raw ''hi'', JObj [(''question'', JStr ''hi'')])]"
  let ?en = "env_with True (Inl (ServiceError ''ClientError'' ''AccessDeniedException'')) JNull []"
  have q: "request_question ?lib (post_event (question_raw ''hi'')) = Inr ''hi''"
    by (simp add: request_question_def post_event_body bind_exn_def py_strip_def is_space_def)
  have t: "qp_handler_try ?lib default_config ?en (post_event (question_raw ''hi'')) []
             = (Inl (ServiceError ''ClientError'' ''AccessDeniedException''),
                snd (qp_embed ?lib default_config ?en ''hi'' [IndicesExists ''kb_chunks'']))"
    by (simp add: qp_handler_try_def qp_ensure_pair post_event_method q
        ensure_index_exists_def ensure_index_exists_try_def env_with_def default_config_def
        qp_embed_def Let_def)
  from unhandled_error_response[OF t] show ?thesis
    by (simp add: CORS_HEADERS_def default_config_def debug_public_errors_def py_lower_def
        lower_char_def)
qed

section \<open>Answers without text\<close>


lemma dict_get_Inr: "dict_get v k d = Inr a \<Longrightarrow> \<exists>kvs. v = JObj kvs"
  by (cases v) auto













text \<open>A text field that holds the empty string is not \<^verbatim>\<open>None\<close>: it is returned.\<close>

lemma empty_text_is_returned:
  "parse_answer default_config (JObj [(''content'', JArr [JObj [(''type'', JStr ''text''), (''text'', JStr [])]])])
     = Inr (JStr [])"
  by (simp add: parse_answer_def is_anthropic_def model_id_to_use_def default_config_def py_lower_def
      lower_char_def anthropic_answer_def bind_exn_def py_or_def)

section \<open>Ingestion of one document\<close>












section \<open>The chunker\<close>

subsection \<open>No chunk is longer than the width\<close>








subsection \<open>No character other than whitespace is lost\<close>













subsection \<open>Whitespace alone gives no chunk\<close>










subsection \<open>Splitting into words\<close>














subsection \<open>The chunks of a text without hyphens\<close>
















subsection \<open>The loop keeps the words\<close>










subsection \<open>The chunker as a whole\<close>










end
